theory Spec2Isabelle
  imports Main
begin

section \<open>The solar tracker of \<open>scripts/solar_tracker_keyframe.py\<close>\<close>

text \<open>
  The script drives a two-axis panel inside Blender. Class \<open>SolarSystem\<close> keeps the
  tilt and rotation counters (Python integers, in degrees), renders a camera image, finds
  the brightest pixel with OpenCV and moves the two motors one step at a time.

  What the script owns is embedded as it is written. What the host owns is kept as data:
  \<^item> \<open>math.radians d\<close> is a float; it is kept symbolically as \<open>Radians d\<close>, the
    conversion applied to the integer \<open>d\<close>, and \<open>degrees\<close> reads the argument back;
  \<^item> the two host channels the script assigns
    (\<open>motor_tilt.rotation_euler[1]\<close> and \<open>motor_rotate.rotation_euler[2]\<close>) are two
    fields holding the channel's present value: what the script assigned last, or what
    the host's timeline gave the channel at the last frame change;
  \<^item> the host's animation timeline is the list of \<open>keyframe_insert\<close> calls, each with
    the object, the channel index, the frame and the channel's value at the call;
  \<^item> \<open>scene.frame_set\<close>, which the script calls before every rendering, makes the
    host evaluate its timeline: a keyed channel takes the value keyed at the frame, whatever
    the script assigned since;
  \<^item> the rendering and the search for the maximum (\<open>_update_sensor\<close>, \<open>cvtColor\<close>,
    \<open>minMaxLoc\<close>) are calls into Blender, NumPy, Pillow and OpenCV; their result
    \<open>max_loc\<close> is an input of the model. The image buffers \<open>data\<close>, \<open>gray\<close>,
    \<open>image\<close> and the unused \<open>iteration_time\<close> are left out.
\<close>

subsection \<open>Data\<close>

text \<open>The strings \<open>"LEFT"\<close>, \<open>"RIGHT"\<close>, \<open>"CENTER"\<close>, \<open>"UP"\<close>, \<open>"DOWN"\<close> of the script.\<close>

datatype direction = LEFT | RIGHT | CENTER | UP | DOWN

datatype angle = Radians int

fun degrees :: "angle \<Rightarrow> int" where
  "degrees (Radians d) = d"

datatype motor = motor_tilt | motor_rotate

record keyframe =
  kf_object :: motor
  kf_index :: nat
  kf_frame :: int
  kf_value :: angle

text \<open>
  The attributes of \<open>SolarSystem\<close>, followed by the three pieces of host state the script
  writes.
\<close>

record solar_system =
  tilt :: int
  rotation :: int
  step :: int
  impossible_move :: bool
  dir_x :: "direction option"
  dir_y :: "direction option"
  res_x :: int
  res_y :: int
  center :: int
  t :: int
  frame_no :: int
  frame_step :: int
  motor_tilt_euler :: angle
  motor_rotate_euler :: angle
  keyframes :: "keyframe list"

subsection \<open>Construction\<close>

text \<open>
  \<open>__init__\<close>: both counters start at 0 and are written to the host; the timeline is
  whatever the scene already holds (\<open>kfs\<close>).
\<close>

definition SolarSystem_init :: "keyframe list \<Rightarrow> solar_system" where
  "SolarSystem_init kfs =
     \<lparr> tilt = 0, rotation = 0, step = 1, impossible_move = False,
       dir_x = None, dir_y = None,
       res_x = 512, res_y = 512, center = 512 div 2, t = 32,
       frame_no = 0, frame_step = 5,
       motor_tilt_euler = Radians 0, motor_rotate_euler = Radians 0,
       keyframes = kfs \<rparr>"

subsection \<open>The move command\<close>

text \<open>
  \<open>_find_bright_spot\<close>, from the location of the maximum on: the coarse decision on
  each axis first, then the dead zone. One \<open>center\<close> serves both axes.
\<close>

definition find_bright_spot :: "solar_system \<Rightarrow> int \<times> int \<Rightarrow> direction \<times> direction" where
  "find_bright_spot s max_loc =
     (let dx = (if center s \<le> fst max_loc then RIGHT else LEFT);
          dy = (if center s \<le> snd max_loc then DOWN else UP);
          dx' = (if center s - t s < fst max_loc \<and> fst max_loc < center s + t s
                 then CENTER else dx);
          dy' = (if center s - t s < snd max_loc \<and> snd max_loc < center s + t s
                 then CENTER else dy)
      in (dx', dy'))"

subsection \<open>The actuators\<close>

definition increase_tilt :: "solar_system \<Rightarrow> solar_system" where
  "increase_tilt s =
     (let s1 = s\<lparr>tilt := tilt s + step s\<rparr>
      in if 90 < tilt s1 then s1\<lparr>impossible_move := True\<rparr>
         else s1\<lparr>motor_tilt_euler := Radians (tilt s1)\<rparr>)"

definition decrease_tilt :: "solar_system \<Rightarrow> solar_system" where
  "decrease_tilt s =
     (let s1 = s\<lparr>tilt := tilt s - step s\<rparr>
      in if tilt s1 < 0 then s1\<lparr>impossible_move := True\<rparr>
         else s1\<lparr>motor_tilt_euler := Radians (tilt s1)\<rparr>)"

definition increase_rotation :: "solar_system \<Rightarrow> solar_system" where
  "increase_rotation s =
     (let s1 = s\<lparr>rotation := rotation s + step s\<rparr>
      in s1\<lparr>motor_rotate_euler := Radians (rotation s1)\<rparr>)"

definition decrease_rotation :: "solar_system \<Rightarrow> solar_system" where
  "decrease_rotation s =
     (let s1 = s\<lparr>rotation := rotation s - step s\<rparr>
      in s1\<lparr>motor_rotate_euler := Radians (rotation s1)\<rparr>)"

subsection \<open>Keyframes\<close>

text \<open>
  \<open>bpy.data.objects[obj].keyframe_insert(data_path="rotation_euler", index=i, frame=f)\<close>
  records the present value of channel \<open>i\<close> of the object at frame \<open>f\<close>. The script
  calls it for channel 1 of \<open>motor_tilt\<close> and channel 2 of \<open>motor_rotate\<close> only.
\<close>

definition channel_value :: "solar_system \<Rightarrow> motor \<Rightarrow> angle" where
  "channel_value s m = (case m of motor_tilt \<Rightarrow> motor_tilt_euler s
                                | motor_rotate \<Rightarrow> motor_rotate_euler s)"

definition keyframe_insert :: "motor \<Rightarrow> nat \<Rightarrow> int \<Rightarrow> solar_system \<Rightarrow> solar_system" where
  "keyframe_insert m i f s =
     s\<lparr>keyframes := keyframes s @
          [\<lparr>kf_object = m, kf_index = i, kf_frame = f, kf_value = channel_value s m\<rparr>]\<rparr>"

subsection \<open>The sensor's frame change\<close>

text \<open>
  The value the timeline holds for channel \<open>i\<close> of an object at frame \<open>f\<close>: that of
  the most recent key inserted for the channel at that frame (a later insert at a frame
  replaces the earlier one), and nothing when the channel has no key there. Between the
  keys of a channel the host interpolates; that is not modelled, and it does not arise
  when the driver starts on an empty timeline, where the frame counter always stands on
  the last pair of keys (\<open>driver_frame_is_keyed\<close> below).
\<close>

definition fcurve_at :: "keyframe list \<Rightarrow> motor \<Rightarrow> nat \<Rightarrow> int \<Rightarrow> angle option" where
  "fcurve_at kfs m i f =
     map_option kf_value
       (find (\<lambda>k. kf_object k = m \<and> kf_index k = i \<and> kf_frame k = f) (rev kfs))"

text \<open>
  \<open>bpy.context.scene.frame_set(f)\<close>: each of the two channels the script keys takes the
  value the timeline holds at \<open>f\<close>; a channel with no key there keeps its value.
\<close>

definition frame_set :: "int \<Rightarrow> solar_system \<Rightarrow> solar_system" where
  "frame_set f s =
     s\<lparr>motor_tilt_euler :=
         (case fcurve_at (keyframes s) motor_tilt 1 f of
            None \<Rightarrow> motor_tilt_euler s | Some a \<Rightarrow> a),
       motor_rotate_euler :=
         (case fcurve_at (keyframes s) motor_rotate 2 f of
            None \<Rightarrow> motor_rotate_euler s | Some a \<Rightarrow> a)\<rparr>"

text \<open>
  \<open>_update_sensor\<close>, as far as it writes the state kept here: the frame change to
  \<open>self.frame_no\<close>. The rendering, the pixel buffer and the saved image are the host's.
\<close>

definition update_sensor :: "solar_system \<Rightarrow> solar_system" where
  "update_sensor s = frame_set (frame_no s) s"

subsection \<open>One iteration and the driver\<close>

text \<open>
  \<open>iterate\<close>, with the location found by the sensor as its input. It begins with
  \<open>_find_bright_spot\<close>, whose first statement is \<open>_update_sensor\<close>. The four tests
  are separate \<open>if\<close> statements, in the order of the script; the frame counter and the
  two keyframes belong to the body of the last one.
\<close>

definition iterate :: "solar_system \<Rightarrow> int \<times> int \<Rightarrow> solar_system" where
  "iterate s max_loc =
     (let sensed = update_sensor s;
          direction = find_bright_spot sensed max_loc;
          s0 = sensed\<lparr>dir_x := Some (fst direction), dir_y := Some (snd direction)\<rparr>
      in if dir_x s0 = Some CENTER \<and> dir_y s0 = Some CENTER then s0
         else
           let s1 = (if dir_x s0 = Some RIGHT then decrease_rotation s0 else s0);
               s2 = (if dir_x s1 = Some LEFT then increase_rotation s1 else s1);
               s3 = (if dir_y s2 = Some DOWN then decrease_tilt s2 else s2)
           in if dir_y s3 = Some UP
              then
                let s4 = increase_tilt s3;
                    s5 = s4\<lparr>frame_no := frame_no s4 + frame_step s4\<rparr>;
                    s6 = keyframe_insert motor_tilt 1 (frame_no s5) s5
                in keyframe_insert motor_rotate 2 (frame_no s6) s6
              else s3)"

text \<open>
  The driver calls \<open>iterate\<close> once per rendered frame (50 times in the script); \<open>run\<close>
  does so for the list of locations the sensor yields.
\<close>

fun run :: "solar_system \<Rightarrow> (int \<times> int) list \<Rightarrow> solar_system" where
  "run s [] = s"
| "run s (loc # locs) = run (iterate s loc) locs"

text \<open>Sequences of direct calls of the four actuator methods.\<close>

datatype move = IncreaseTilt | DecreaseTilt | IncreaseRotation | DecreaseRotation

fun apply_move :: "solar_system \<Rightarrow> move \<Rightarrow> solar_system" where
  "apply_move s IncreaseTilt = increase_tilt s"
| "apply_move s DecreaseTilt = decrease_tilt s"
| "apply_move s IncreaseRotation = increase_rotation s"
| "apply_move s DecreaseRotation = decrease_rotation s"

fun apply_moves :: "solar_system \<Rightarrow> move list \<Rightarrow> solar_system" where
  "apply_moves s [] = s"
| "apply_moves s (m # ms) = apply_moves (apply_move s m) ms"

section \<open>Properties\<close>

subsection \<open>Helper facts\<close>

lemma find_bright_spot_fst:
  "fst (find_bright_spot s (x, y)) =
     (if center s - t s < x \<and> x < center s + t s then CENTER
      else if center s \<le> x then RIGHT else LEFT)"
  by (simp add: find_bright_spot_def Let_def)

lemma find_bright_spot_snd:
  "snd (find_bright_spot s (x, y)) =
     (if center s - t s < y \<and> y < center s + t s then CENTER
      else if center s \<le> y then DOWN else UP)"
  by (simp add: find_bright_spot_def Let_def)

lemma increase_tilt_simps:
  "tilt (increase_tilt s) = tilt s + step s"
  "rotation (increase_tilt s) = rotation s"
  "step (increase_tilt s) = step s"
  "impossible_move (increase_tilt s) = (impossible_move s \<or> 90 < tilt s + step s)"
  "dir_x (increase_tilt s) = dir_x s"
  "dir_y (increase_tilt s) = dir_y s"
  "center (increase_tilt s) = center s"
  "t (increase_tilt s) = t s"
  "frame_no (increase_tilt s) = frame_no s"
  "frame_step (increase_tilt s) = frame_step s"
  "motor_tilt_euler (increase_tilt s) =
     (if 90 < tilt s + step s then motor_tilt_euler s else Radians (tilt s + step s))"
  "motor_rotate_euler (increase_tilt s) = motor_rotate_euler s"
  "keyframes (increase_tilt s) = keyframes s"
  by (simp_all add: increase_tilt_def Let_def)

lemma decrease_tilt_simps:
  "tilt (decrease_tilt s) = tilt s - step s"
  "rotation (decrease_tilt s) = rotation s"
  "step (decrease_tilt s) = step s"
  "impossible_move (decrease_tilt s) = (impossible_move s \<or> tilt s - step s < 0)"
  "dir_x (decrease_tilt s) = dir_x s"
  "dir_y (decrease_tilt s) = dir_y s"
  "center (decrease_tilt s) = center s"
  "t (decrease_tilt s) = t s"
  "frame_no (decrease_tilt s) = frame_no s"
  "frame_step (decrease_tilt s) = frame_step s"
  "motor_tilt_euler (decrease_tilt s) =
     (if tilt s - step s < 0 then motor_tilt_euler s else Radians (tilt s - step s))"
  "motor_rotate_euler (decrease_tilt s) = motor_rotate_euler s"
  "keyframes (decrease_tilt s) = keyframes s"
  by (simp_all add: decrease_tilt_def Let_def)

lemma increase_rotation_simps:
  "tilt (increase_rotation s) = tilt s"
  "rotation (increase_rotation s) = rotation s + step s"
  "step (increase_rotation s) = step s"
  "impossible_move (increase_rotation s) = impossible_move s"
  "dir_x (increase_rotation s) = dir_x s"
  "dir_y (increase_rotation s) = dir_y s"
  "center (increase_rotation s) = center s"
  "t (increase_rotation s) = t s"
  "frame_no (increase_rotation s) = frame_no s"
  "frame_step (increase_rotation s) = frame_step s"
  "motor_tilt_euler (increase_rotation s) = motor_tilt_euler s"
  "motor_rotate_euler (increase_rotation s) = Radians (rotation s + step s)"
  "keyframes (increase_rotation s) = keyframes s"
  by (simp_all add: increase_rotation_def Let_def)

lemma decrease_rotation_simps:
  "tilt (decrease_rotation s) = tilt s"
  "rotation (decrease_rotation s) = rotation s - step s"
  "step (decrease_rotation s) = step s"
  "impossible_move (decrease_rotation s) = impossible_move s"
  "dir_x (decrease_rotation s) = dir_x s"
  "dir_y (decrease_rotation s) = dir_y s"
  "center (decrease_rotation s) = center s"
  "t (decrease_rotation s) = t s"
  "frame_no (decrease_rotation s) = frame_no s"
  "frame_step (decrease_rotation s) = frame_step s"
  "motor_tilt_euler (decrease_rotation s) = motor_tilt_euler s"
  "motor_rotate_euler (decrease_rotation s) = Radians (rotation s - step s)"
  "keyframes (decrease_rotation s) = keyframes s"
  by (simp_all add: decrease_rotation_def Let_def)

lemmas actuator_simps =
  increase_tilt_simps decrease_tilt_simps increase_rotation_simps decrease_rotation_simps

lemma keyframe_insert_simps:
  "tilt (keyframe_insert m i f s) = tilt s"
  "rotation (keyframe_insert m i f s) = rotation s"
  "step (keyframe_insert m i f s) = step s"
  "impossible_move (keyframe_insert m i f s) = impossible_move s"
  "dir_x (keyframe_insert m i f s) = dir_x s"
  "dir_y (keyframe_insert m i f s) = dir_y s"
  "center (keyframe_insert m i f s) = center s"
  "t (keyframe_insert m i f s) = t s"
  "frame_no (keyframe_insert m i f s) = frame_no s"
  "frame_step (keyframe_insert m i f s) = frame_step s"
  "motor_tilt_euler (keyframe_insert m i f s) = motor_tilt_euler s"
  "motor_rotate_euler (keyframe_insert m i f s) = motor_rotate_euler s"
  "keyframes (keyframe_insert m i f s) = keyframes s @
     [\<lparr>kf_object = m, kf_index = i, kf_frame = f, kf_value = channel_value s m\<rparr>]"
  by (simp_all add: keyframe_insert_def)

lemma update_sensor_simps:
  "tilt (update_sensor s) = tilt s"
  "rotation (update_sensor s) = rotation s"
  "step (update_sensor s) = step s"
  "impossible_move (update_sensor s) = impossible_move s"
  "dir_x (update_sensor s) = dir_x s"
  "dir_y (update_sensor s) = dir_y s"
  "center (update_sensor s) = center s"
  "t (update_sensor s) = t s"
  "frame_no (update_sensor s) = frame_no s"
  "frame_step (update_sensor s) = frame_step s"
  "motor_tilt_euler (update_sensor s) =
     (case fcurve_at (keyframes s) motor_tilt 1 (frame_no s) of
        None \<Rightarrow> motor_tilt_euler s | Some a \<Rightarrow> a)"
  "motor_rotate_euler (update_sensor s) =
     (case fcurve_at (keyframes s) motor_rotate 2 (frame_no s) of
        None \<Rightarrow> motor_rotate_euler s | Some a \<Rightarrow> a)"
  "keyframes (update_sensor s) = keyframes s"
  by (simp_all add: update_sensor_def frame_set_def)

lemma find_bright_spot_update_sensor:
  "find_bright_spot (update_sensor s) loc = find_bright_spot s loc"
  by (simp add: find_bright_spot_def update_sensor_simps)


text \<open>What one iteration does to each attribute, by the vertical direction found.\<close>

lemma iterate_constants:
  "step (iterate s loc) = step s"
  "center (iterate s loc) = center s"
  "t (iterate s loc) = t s"
  "frame_step (iterate s loc) = frame_step s"
  by (simp_all add: iterate_def Let_def actuator_simps keyframe_insert_simps
        update_sensor_simps find_bright_spot_update_sensor)

lemma iterate_dirs:
  "dir_x (iterate s loc) = Some (fst (find_bright_spot s loc))"
  "dir_y (iterate s loc) = Some (snd (find_bright_spot s loc))"
  by (simp_all add: iterate_def Let_def actuator_simps keyframe_insert_simps
        update_sensor_simps find_bright_spot_update_sensor)

lemma iterate_frame_no:
  "frame_no (iterate s loc) =
     (if snd (find_bright_spot s loc) = UP then frame_no s + frame_step s else frame_no s)"
  by (simp add: iterate_def Let_def actuator_simps keyframe_insert_simps
        update_sensor_simps find_bright_spot_update_sensor)

lemma iterate_keyframes:
  "keyframes (iterate s loc) =
     (if snd (find_bright_spot s loc) = UP
      then keyframes s @
        [\<lparr>kf_object = motor_tilt, kf_index = 1, kf_frame = frame_no s + frame_step s,
          kf_value = motor_tilt_euler (iterate s loc)\<rparr>,
         \<lparr>kf_object = motor_rotate, kf_index = 2, kf_frame = frame_no s + frame_step s,
          kf_value = motor_rotate_euler (iterate s loc)\<rparr>]
      else keyframes s)"
  by (simp add: iterate_def Let_def actuator_simps keyframe_insert_simps channel_value_def
        update_sensor_simps find_bright_spot_update_sensor)

lemma iterate_impossible_move:
  "impossible_move s \<Longrightarrow> impossible_move (iterate s loc)"
  by (simp add: iterate_def Let_def actuator_simps keyframe_insert_simps
        update_sensor_simps find_bright_spot_update_sensor)



text \<open>The driver and sequences of moves.\<close>

lemma run_append: "run s (locs @ locs') = run (run s locs) locs'"
  by (induction locs arbitrary: s) simp_all

lemma run_frame_step: "frame_step (run s locs) = frame_step s"
  by (induction locs arbitrary: s) (simp_all add: iterate_constants)

lemma run_frame_no_mono: "0 \<le> frame_step s \<Longrightarrow> frame_no s \<le> frame_no (run s locs)"
proof (induction locs arbitrary: s)
  case Nil
  show ?case by simp
next
  case (Cons loc locs)
  have "frame_no s \<le> frame_no (iterate s loc)"
    using Cons.prems by (simp add: iterate_frame_no)
  also have "\<dots> \<le> frame_no (run (iterate s loc) locs)"
    using Cons.prems by (intro Cons.IH) (simp add: iterate_constants)
  finally show ?case by simp
qed

lemma run_impossible_move: "impossible_move s \<Longrightarrow> impossible_move (run s locs)"
  by (induction locs arbitrary: s) (simp_all add: iterate_impossible_move)

lemma apply_move_impossible_move: "impossible_move s \<Longrightarrow> impossible_move (apply_move s m)"
  by (cases m) (simp_all add: actuator_simps)

lemma apply_moves_impossible_move: "impossible_move s \<Longrightarrow> impossible_move (apply_moves s ms)"
  by (induction ms arbitrary: s) (simp_all add: apply_move_impossible_move)

lemma apply_move_frame_no: "frame_no (apply_move s m) = frame_no s"
  by (cases m) (simp_all add: actuator_simps)

lemma apply_moves_frame_no: "frame_no (apply_moves s ms) = frame_no s"
  by (induction ms arbitrary: s) (simp_all add: apply_move_frame_no)

lemma apply_moves_snoc: "apply_moves s (ms @ [m]) = apply_move (apply_moves s ms) m"
  by (induction ms arbitrary: s) simp_all


text \<open>
  Started on an empty timeline, the driver is always at a frame where both channels are
  keyed, once anything is keyed at all.
\<close>

lemma iterate_frame_is_keyed:
  "keyframes s = []
     \<or> (fcurve_at (keyframes s) motor_tilt 1 (frame_no s) \<noteq> None
        \<and> fcurve_at (keyframes s) motor_rotate 2 (frame_no s) \<noteq> None)
   \<Longrightarrow> keyframes (iterate s loc) = []
     \<or> (fcurve_at (keyframes (iterate s loc)) motor_tilt 1 (frame_no (iterate s loc))
           \<noteq> None
        \<and> fcurve_at (keyframes (iterate s loc)) motor_rotate 2 (frame_no (iterate s loc))
           \<noteq> None)"
proof (cases "snd (find_bright_spot s loc) = UP")
  case True
  then show ?thesis
    by (simp add: iterate_keyframes iterate_frame_no fcurve_at_def)
next
  case False
  assume "keyframes s = []
     \<or> (fcurve_at (keyframes s) motor_tilt 1 (frame_no s) \<noteq> None
        \<and> fcurve_at (keyframes s) motor_rotate 2 (frame_no s) \<noteq> None)"
  with False show ?thesis
    by (simp add: iterate_keyframes iterate_frame_no)
qed

lemma run_frame_is_keyed:
  "keyframes s = []
     \<or> (fcurve_at (keyframes s) motor_tilt 1 (frame_no s) \<noteq> None
        \<and> fcurve_at (keyframes s) motor_rotate 2 (frame_no s) \<noteq> None)
   \<Longrightarrow> keyframes (run s locs) = []
     \<or> (fcurve_at (keyframes (run s locs)) motor_tilt 1 (frame_no (run s locs)) \<noteq> None
        \<and> fcurve_at (keyframes (run s locs)) motor_rotate 2 (frame_no (run s locs)) \<noteq> None)"
proof (induction locs arbitrary: s)
  case Nil
  then show ?case by simp
next
  case (Cons loc locs)
  show ?case
    using Cons.IH [OF iterate_frame_is_keyed [OF Cons.prems, of loc]] by simp
qed

lemma driver_frame_is_keyed:
  "keyframes (run (SolarSystem_init []) locs) = []
   \<or> (fcurve_at (keyframes (run (SolarSystem_init []) locs)) motor_tilt 1
          (frame_no (run (SolarSystem_init []) locs)) \<noteq> None
      \<and> fcurve_at (keyframes (run (SolarSystem_init []) locs)) motor_rotate 2
          (frame_no (run (SolarSystem_init []) locs)) \<noteq> None)"
  by (rule run_frame_is_keyed) (simp add: SolarSystem_init_def)

text \<open>Climbing from the start: \<open>n\<close> calls of \<open>_increase_tilt\<close> in a row.\<close>

lemma climb:
  "tilt (apply_moves (SolarSystem_init kfs) (replicate n IncreaseTilt)) = int n
   \<and> step (apply_moves (SolarSystem_init kfs) (replicate n IncreaseTilt)) = 1
   \<and> motor_tilt_euler (apply_moves (SolarSystem_init kfs) (replicate n IncreaseTilt))
       = Radians (min (int n) 90)"
proof (induction n)
  case 0
  show ?case by (simp add: SolarSystem_init_def)
next
  case (Suc n)
  have "replicate (Suc n) IncreaseTilt = replicate n IncreaseTilt @ [IncreaseTilt]"
    by (simp add: replicate_append_same)
  then show ?case using Suc.IH
    by (simp only: apply_moves_snoc apply_move.simps) (auto simp add: actuator_simps)
qed

subsection \<open>The classifier\<close>

text \<open>
  C1. For every location \<open>(x, y)\<close>, centre and tolerance, the horizontal direction is
  RIGHT when \<open>x\<close> is at or beyond the centre and LEFT otherwise, overridden to CENTER
  exactly when \<open>x\<close> lies strictly inside the dead zone; the vertical direction is DOWN
  or UP in the same way, overridden to CENTER exactly when \<open>y\<close> lies strictly inside.
  A location strictly inside on both axes gives (CENTER, CENTER). With the positive
  tolerance the tracker has, a coordinate exactly on the upper edge of the dead zone stays
  RIGHT (DOWN), and one exactly on the lower edge stays LEFT (UP).
\<close>

theorem C1_classifier:
  "fst (find_bright_spot s (x, y)) =
     (if center s - t s < x \<and> x < center s + t s then CENTER
      else if center s \<le> x then RIGHT else LEFT)
   \<and> snd (find_bright_spot s (x, y)) =
     (if center s - t s < y \<and> y < center s + t s then CENTER
      else if center s \<le> y then DOWN else UP)
   \<and> ((fst (find_bright_spot s (x, y)) = CENTER) = (center s - t s < x \<and> x < center s + t s))
   \<and> ((snd (find_bright_spot s (x, y)) = CENTER) = (center s - t s < y \<and> y < center s + t s))
   \<and> (center s - t s < x \<and> x < center s + t s \<and> center s - t s < y \<and> y < center s + t s
        \<longrightarrow> find_bright_spot s (x, y) = (CENTER, CENTER))
   \<and> (0 < t s \<longrightarrow>
          fst (find_bright_spot s (center s + t s, y)) = RIGHT
        \<and> fst (find_bright_spot s (center s - t s, y)) = LEFT
        \<and> snd (find_bright_spot s (x, center s + t s)) = DOWN
        \<and> snd (find_bright_spot s (x, center s - t s)) = UP)"
  by (simp add: find_bright_spot_def Let_def)

theorem C1_classifier_witness:
  "0 < t (SolarSystem_init [])
   \<and> center (SolarSystem_init []) - t (SolarSystem_init []) < 256
   \<and> 256 < center (SolarSystem_init []) + t (SolarSystem_init [])
   \<and> find_bright_spot (SolarSystem_init []) (256, 256) = (CENTER, CENTER)
   \<and> fst (find_bright_spot (SolarSystem_init []) (288, 256)) = RIGHT
   \<and> fst (find_bright_spot (SolarSystem_init []) (224, 256)) = LEFT
   \<and> snd (find_bright_spot (SolarSystem_init []) (256, 288)) = DOWN
   \<and> snd (find_bright_spot (SolarSystem_init []) (256, 224)) = UP"
  using C1_classifier [of "SolarSystem_init []" 256 256]
  by (simp add: SolarSystem_init_def)

subsection \<open>The actuators\<close>

text \<open>
  C3. For every state, \<open>_increase_tilt\<close> called when the tilt counter plus the step
  exceeds 90 sets \<open>impossible_move\<close>, leaves the angle of the host's tilt motor as it
  was, and still leaves the counter raised by the step. \<open>_decrease_tilt\<close> does the same
  at the lower bound 0.
\<close>

theorem C3_tilt_out_of_range:
  "(90 < tilt s + step s \<longrightarrow>
        impossible_move (increase_tilt s)
      \<and> motor_tilt_euler (increase_tilt s) = motor_tilt_euler s
      \<and> tilt (increase_tilt s) = tilt s + step s)
   \<and> (tilt s - step s < 0 \<longrightarrow>
        impossible_move (decrease_tilt s)
      \<and> motor_tilt_euler (decrease_tilt s) = motor_tilt_euler s
      \<and> tilt (decrease_tilt s) = tilt s - step s)"
  by (simp add: increase_tilt_simps decrease_tilt_simps)

theorem C3_tilt_out_of_range_witness:
  "90 < tilt (apply_moves (SolarSystem_init []) (replicate 90 IncreaseTilt))
          + step (apply_moves (SolarSystem_init []) (replicate 90 IncreaseTilt))
   \<and> motor_tilt_euler (apply_moves (SolarSystem_init []) (replicate 90 IncreaseTilt))
       = Radians 90
   \<and> impossible_move
        (increase_tilt (apply_moves (SolarSystem_init []) (replicate 90 IncreaseTilt)))
   \<and> motor_tilt_euler
        (increase_tilt (apply_moves (SolarSystem_init []) (replicate 90 IncreaseTilt)))
       = Radians 90
   \<and> tilt (increase_tilt (apply_moves (SolarSystem_init []) (replicate 90 IncreaseTilt)))
       = 91
   \<and> tilt (SolarSystem_init []) - step (SolarSystem_init []) < 0
   \<and> impossible_move (decrease_tilt (SolarSystem_init []))
   \<and> motor_tilt_euler (decrease_tilt (SolarSystem_init [])) = Radians 0
   \<and> tilt (decrease_tilt (SolarSystem_init [])) = - 1"
proof -
  let ?top = "apply_moves (SolarSystem_init []) (replicate 90 IncreaseTilt)"
  have top: "tilt ?top = 90" "step ?top = 1" "motor_tilt_euler ?top = Radians 90"
    by code_simp+
  have bot: "tilt (SolarSystem_init []) = 0" "step (SolarSystem_init []) = 1"
    "motor_tilt_euler (SolarSystem_init []) = Radians 0"
    by (simp_all add: SolarSystem_init_def)
  show ?thesis
    using C3_tilt_out_of_range [of ?top] C3_tilt_out_of_range [of "SolarSystem_init []"]
    by (simp add: top bot)
qed

text \<open>
  C7. For every state, \<open>_increase_rotation\<close> and \<open>_decrease_rotation\<close> are applied
  without any condition: the rotation counter changes by exactly plus or minus the step,
  nothing is checked or flagged, and the new angle, in radians, goes to the host's rotation
  motor. A tilt move that stays within the bounds sends the new tilt angle, in radians, to
  the host's tilt motor. Each move writes the motor of its own axis only.
\<close>

theorem C7_moves_reach_host:
  "rotation (increase_rotation s) = rotation s + step s
   \<and> motor_rotate_euler (increase_rotation s) = Radians (rotation s + step s)
   \<and> rotation (decrease_rotation s) = rotation s - step s
   \<and> motor_rotate_euler (decrease_rotation s) = Radians (rotation s - step s)
   \<and> impossible_move (increase_rotation s) = impossible_move s
   \<and> impossible_move (decrease_rotation s) = impossible_move s
   \<and> motor_tilt_euler (increase_rotation s) = motor_tilt_euler s
   \<and> motor_tilt_euler (decrease_rotation s) = motor_tilt_euler s
   \<and> (tilt s + step s \<le> 90 \<longrightarrow>
          tilt (increase_tilt s) = tilt s + step s
        \<and> motor_tilt_euler (increase_tilt s) = Radians (tilt s + step s))
   \<and> (0 \<le> tilt s - step s \<longrightarrow>
          tilt (decrease_tilt s) = tilt s - step s
        \<and> motor_tilt_euler (decrease_tilt s) = Radians (tilt s - step s))
   \<and> motor_rotate_euler (increase_tilt s) = motor_rotate_euler s
   \<and> motor_rotate_euler (decrease_tilt s) = motor_rotate_euler s"
  by (simp add: actuator_simps)

theorem C7_moves_reach_host_witness:
  "tilt (SolarSystem_init []) + step (SolarSystem_init []) \<le> 90
   \<and> motor_tilt_euler (increase_tilt (SolarSystem_init [])) = Radians 1
   \<and> 0 \<le> tilt (increase_tilt (SolarSystem_init [])) - step (increase_tilt (SolarSystem_init []))
   \<and> motor_tilt_euler (decrease_tilt (increase_tilt (SolarSystem_init []))) = Radians 0
   \<and> motor_rotate_euler (increase_rotation (SolarSystem_init [])) = Radians 1
   \<and> motor_rotate_euler (decrease_rotation (SolarSystem_init [])) = Radians (- 1)"
  using C7_moves_reach_host [of "SolarSystem_init []"]
        C7_moves_reach_host [of "increase_tilt (SolarSystem_init [])"]
  by (simp add: SolarSystem_init_def increase_tilt_simps)

text \<open>
  C10. \<open>_decrease_tilt\<close> checks the lower bound only: for every state it sends the
  lowered counter to the host whenever that value is at least 0, whether or not it exceeds
  90. After \<open>n\<close> calls of \<open>_increase_tilt\<close> from the start, with \<open>n\<close> at least 92, the
  counter is \<open>n\<close>, the host's tilt motor is still at 90 degrees, and one call of
  \<open>_decrease_tilt\<close> sends \<open>n - 1\<close> degrees, more than 90, to the host's tilt motor.
\<close>

theorem C10_decrease_tilt_no_upper_check:
  "(0 \<le> tilt s - step s \<longrightarrow>
        motor_tilt_euler (decrease_tilt s) = Radians (tilt s - step s))
   \<and> (92 \<le> n \<longrightarrow>
        tilt (apply_moves (SolarSystem_init kfs) (replicate n IncreaseTilt)) = int n
      \<and> step (apply_moves (SolarSystem_init kfs) (replicate n IncreaseTilt)) = 1
      \<and> motor_tilt_euler (apply_moves (SolarSystem_init kfs) (replicate n IncreaseTilt))
          = Radians 90
      \<and> motor_tilt_euler
          (decrease_tilt (apply_moves (SolarSystem_init kfs) (replicate n IncreaseTilt)))
          = Radians (int n - 1)
      \<and> 90 < degrees (motor_tilt_euler
          (decrease_tilt (apply_moves (SolarSystem_init kfs) (replicate n IncreaseTilt)))))"
  using climb [of kfs n] by (simp add: decrease_tilt_simps)

theorem C10_decrease_tilt_no_upper_check_witness:
  "(92::nat) \<le> 92
   \<and> 0 \<le> tilt (apply_moves (SolarSystem_init []) (replicate 92 IncreaseTilt))
          - step (apply_moves (SolarSystem_init []) (replicate 92 IncreaseTilt))
   \<and> motor_tilt_euler (apply_moves (SolarSystem_init []) (replicate 92 IncreaseTilt))
       = Radians 90
   \<and> motor_tilt_euler
        (decrease_tilt (apply_moves (SolarSystem_init []) (replicate 92 IncreaseTilt)))
       = Radians 91"
proof -
  let ?over = "apply_moves (SolarSystem_init []) (replicate 92 IncreaseTilt)"
  have over: "tilt ?over = 92" "step ?over = 1"
    by code_simp+
  show ?thesis
    using C10_decrease_tilt_no_upper_check [of ?over 92 "[]"]
    by (simp add: over)
qed

text \<open>
  C2, at the input where it fails. From the start, two calls of \<open>_decrease_tilt\<close> take
  the counter to \<open>-2\<close> without touching the host; the next \<open>_increase_tilt\<close> finds
  \<open>-1\<close>, which is not above 90, and sends \<open>-1\<close> degrees to the host's tilt motor. The
  driver reaches the same state in three iterations, with the bright spot twice below the
  dead zone and then above it.
\<close>

theorem C2_tilt_below_zero_reaches_host:
  "motor_tilt_euler
     (apply_moves (SolarSystem_init []) [DecreaseTilt, DecreaseTilt, IncreaseTilt])
     = Radians (- 1)
   \<and> motor_tilt_euler
       (run (SolarSystem_init []) [(256, 400), (256, 400), (256, 100)]) = Radians (- 1)
   \<and> degrees (motor_tilt_euler
       (run (SolarSystem_init []) [(256, 400), (256, 400), (256, 100)])) < 0"
  by (simp add: SolarSystem_init_def actuator_simps iterate_def find_bright_spot_def
        keyframe_insert_simps update_sensor_simps fcurve_at_def Let_def)

subsection \<open>The flag\<close>

text \<open>
  C9. \<open>impossible_move\<close> starts false, and once it is true it stays true: the four
  actuator methods, one iteration, any run of the driver and any sequence of moves all
  keep it true.
\<close>

theorem C9_impossible_move_sticky:
  "\<not> impossible_move (SolarSystem_init kfs)
   \<and> (impossible_move s \<longrightarrow>
          impossible_move (increase_tilt s)
        \<and> impossible_move (decrease_tilt s)
        \<and> impossible_move (increase_rotation s)
        \<and> impossible_move (decrease_rotation s)
        \<and> impossible_move (iterate s loc)
        \<and> impossible_move (run s locs)
        \<and> impossible_move (apply_moves s ms))"
  by (simp add: SolarSystem_init_def actuator_simps iterate_impossible_move
        run_impossible_move apply_moves_impossible_move)

theorem C9_impossible_move_sticky_witness:
  "impossible_move (decrease_tilt (SolarSystem_init []))
   \<and> motor_tilt_euler (increase_tilt (decrease_tilt (SolarSystem_init []))) = Radians 0
   \<and> impossible_move (increase_tilt (decrease_tilt (SolarSystem_init [])))
   \<and> impossible_move (increase_rotation (decrease_tilt (SolarSystem_init [])))
   \<and> impossible_move (iterate (decrease_tilt (SolarSystem_init [])) (256, 100))
   \<and> impossible_move (run (decrease_tilt (SolarSystem_init [])) [(256, 100), (0, 0)])"
proof -
  have h: "impossible_move (decrease_tilt (SolarSystem_init []))"
    by (simp add: decrease_tilt_simps SolarSystem_init_def)
  have v: "motor_tilt_euler (increase_tilt (decrease_tilt (SolarSystem_init []))) = Radians 0"
    by (simp add: actuator_simps SolarSystem_init_def)
  show ?thesis
    using h v
      C9_impossible_move_sticky
        [of "[]" "decrease_tilt (SolarSystem_init [])" "(256, 100)" "[(256, 100), (0, 0)]" "[]"]
    by blast
qed

subsection \<open>Iterations\<close>

text \<open>
  C4, as the script has it. In one iteration the two keyframes, one for each motor and
  holding that motor's angle after the iteration's moves, are added exactly when the vertical
  direction is UP. In that branch the frame counter is advanced by the stride first and
  the keyframes are recorded at the advanced frame number. Any other vertical direction
  (DOWN, a horizontal move alone, convergence) adds no keyframe and leaves the frame
  counter as it was. The stride is 5 at the start and in every state the driver reaches.
\<close>

theorem C4_keyframe_on_up_only:
  "(snd (find_bright_spot s loc) = UP \<longrightarrow>
        frame_no (iterate s loc) = frame_no s + frame_step s
      \<and> keyframes (iterate s loc) = keyframes s @
          [\<lparr>kf_object = motor_tilt, kf_index = 1, kf_frame = frame_no (iterate s loc),
            kf_value = motor_tilt_euler (iterate s loc)\<rparr>,
           \<lparr>kf_object = motor_rotate, kf_index = 2, kf_frame = frame_no (iterate s loc),
            kf_value = motor_rotate_euler (iterate s loc)\<rparr>])
   \<and> (snd (find_bright_spot s loc) \<noteq> UP \<longrightarrow>
        frame_no (iterate s loc) = frame_no s \<and> keyframes (iterate s loc) = keyframes s)
   \<and> ((keyframes (iterate s loc) \<noteq> keyframes s) = (snd (find_bright_spot s loc) = UP))
   \<and> frame_step (run (SolarSystem_init kfs) locs) = 5"
  by (simp add: iterate_frame_no iterate_keyframes run_frame_step)
     (simp add: SolarSystem_init_def)

theorem C4_keyframe_on_up_only_witness:
  "snd (find_bright_spot (SolarSystem_init []) (500, 100)) = UP
   \<and> frame_no (iterate (SolarSystem_init []) (500, 100)) = 5
   \<and> keyframes (iterate (SolarSystem_init []) (500, 100)) =
       [\<lparr>kf_object = motor_tilt, kf_index = 1, kf_frame = 5, kf_value = Radians 1\<rparr>,
        \<lparr>kf_object = motor_rotate, kf_index = 2, kf_frame = 5, kf_value = Radians (- 1)\<rparr>]
   \<and> snd (find_bright_spot (SolarSystem_init []) (500, 400)) \<noteq> UP
   \<and> frame_no (iterate (SolarSystem_init []) (500, 400)) = 0
   \<and> keyframes (iterate (SolarSystem_init []) (500, 400)) = []"
proof -
  have up: "snd (find_bright_spot (SolarSystem_init []) (500, 100)) = UP"
    by (simp add: find_bright_spot_snd SolarSystem_init_def)
  have down: "snd (find_bright_spot (SolarSystem_init []) (500, 400)) \<noteq> UP"
    by (simp add: find_bright_spot_snd SolarSystem_init_def)
  have a: "motor_tilt_euler (iterate (SolarSystem_init []) (500, 100)) = Radians 1"
    by (simp add: iterate_def find_bright_spot_def Let_def actuator_simps
          keyframe_insert_simps update_sensor_simps fcurve_at_def SolarSystem_init_def)
  have b: "motor_rotate_euler (iterate (SolarSystem_init []) (500, 100)) = Radians (- 1)"
    by (simp add: iterate_def find_bright_spot_def Let_def actuator_simps
          keyframe_insert_simps update_sensor_simps fcurve_at_def SolarSystem_init_def)
  have c: "frame_no (SolarSystem_init []) = 0" "frame_step (SolarSystem_init []) = 5"
          "keyframes (SolarSystem_init []) = []"
    by (simp_all add: SolarSystem_init_def)
  show ?thesis
    using up down a b c
      C4_keyframe_on_up_only [of "SolarSystem_init []" "(500, 100)" "[]" "[]"]
      C4_keyframe_on_up_only [of "SolarSystem_init []" "(500, 400)" "[]" "[]"]
    by simp
qed

text \<open>
  C4, as the specification words it, fails: the keyframes of the first upward correction
  are at frame 5, the frame number after the advance, and none is at frame 0, the frame
  number the iteration started with.
\<close>

theorem C4_keyframe_frame_counterexample:
  "snd (find_bright_spot (SolarSystem_init []) (500, 100)) = UP
   \<and> frame_no (SolarSystem_init []) = 0
   \<and> map kf_frame (keyframes (iterate (SolarSystem_init []) (500, 100))) = [5, 5]
   \<and> frame_no (SolarSystem_init [])
       \<notin> set (map kf_frame (keyframes (iterate (SolarSystem_init []) (500, 100))))"
  by (simp add: iterate_keyframes find_bright_spot_snd SolarSystem_init_def)




text \<open>
  C8. The frame counter never goes down. It starts at 0; the actuator methods leave it
  alone; an iteration leaves it as it is or adds the stride; in every state the driver
  reaches the stride is 5, the counter is not negative, an iteration leaves it or adds 5,
  and running further never lowers it.
\<close>

theorem C8_frame_no_monotone:
  "frame_no (SolarSystem_init kfs) = 0
   \<and> frame_no (apply_moves s ms) = frame_no s
   \<and> (frame_no (iterate s loc) = frame_no s
        \<or> frame_no (iterate s loc) = frame_no s + frame_step s)
   \<and> frame_step (run (SolarSystem_init kfs) locs) = 5
   \<and> 0 \<le> frame_no (run (SolarSystem_init kfs) locs)
   \<and> (frame_no (iterate (run (SolarSystem_init kfs) locs) loc)
          = frame_no (run (SolarSystem_init kfs) locs)
        \<or> frame_no (iterate (run (SolarSystem_init kfs) locs) loc)
          = frame_no (run (SolarSystem_init kfs) locs) + 5)
   \<and> frame_no (run (SolarSystem_init kfs) locs)
        \<le> frame_no (run (SolarSystem_init kfs) (locs @ locs'))"
proof -
  let ?i = "SolarSystem_init kfs"
  have i: "frame_no ?i = 0" "frame_step ?i = 5"
    by (simp_all add: SolarSystem_init_def)
  have st: "frame_step (run ?i locs) = 5"
    by (simp add: run_frame_step i)
  have nonneg: "0 \<le> frame_no (run ?i locs)"
    using run_frame_no_mono [of ?i locs] by (simp add: i)
  have mono: "frame_no (run ?i locs) \<le> frame_no (run ?i (locs @ locs'))"
    using run_frame_no_mono [of "run ?i locs" locs'] by (simp add: run_append st)
  have step1: "frame_no (iterate s loc) = frame_no s
        \<or> frame_no (iterate s loc) = frame_no s + frame_step s" for s
    by (simp add: iterate_frame_no)
  show ?thesis
    using i(1) st nonneg mono step1 [of s] step1 [of "run ?i locs"]
    by (simp add: apply_moves_frame_no)
qed

end
